theory Spec2Isabelle
  imports Complex_Main "HOL-Library.Sublist" "HOL-Library.Word"
begin

section \<open>Text\<close>

text \<open>
  A Python \<open>str\<close> is a sequence of Unicode code points; a code point is a natural
  number.  \<open>py\<close> reads an ASCII literal of the source as such a sequence.
\<close>

type_synonym pystr = "nat list"

definition py :: "string \<Rightarrow> pystr" where
  "py s = map of_char s"

text \<open>\<open>a in b\<close> on two strings: \<open>a\<close> occurs in \<open>b\<close> as a contiguous run.\<close>

fun starts_with :: "pystr \<Rightarrow> pystr \<Rightarrow> bool" where
  "starts_with [] s = True"
| "starts_with (c # p) [] = False"
| "starts_with (c # p) (d # s) = (c = d \<and> starts_with p s)"

fun str_contains :: "pystr \<Rightarrow> pystr \<Rightarrow> bool" where
  "str_contains p [] = (p = [])"
| "str_contains p (d # s) = (starts_with p (d # s) \<or> str_contains p s)"

text \<open>
  \<open>str.lower()\<close>.  On text made of ASCII characters only it maps \<open>A\<close>..\<open>Z\<close> to
  \<open>a\<close>..\<open>z\<close> and keeps everything else.  On any other text the result is fixed by the
  interpreter's Unicode case tables, which are not part of this repository: it is the
  parameter \<open>unicode_lower\<close>.
\<close>

definition ascii_lower :: "nat \<Rightarrow> nat" where
  "ascii_lower c = (if 65 \<le> c \<and> c \<le> 90 then c + 32 else c)"

definition str_lower :: "(pystr \<Rightarrow> pystr) \<Rightarrow> pystr \<Rightarrow> pystr" where
  "str_lower unicode_lower s =
     (if list_all (\<lambda>c. c < 128) s then map ascii_lower s else unicode_lower s)"

text \<open>
  \<open>str(uuid)\<close>: the 128-bit value as 32 lower-case hexadecimal digits, grouped
  8-4-4-4-12 with hyphens.
\<close>

definition hex_char :: "nat \<Rightarrow> nat" where
  "hex_char d = (if d < 10 then 48 + d else 87 + d)"

fun hex_digits :: "nat \<Rightarrow> nat \<Rightarrow> pystr" where
  "hex_digits 0 v = []"
| "hex_digits (Suc n) v = hex_digits n (v div 16) @ [hex_char (v mod 16)]"

definition uuid_str :: "128 word \<Rightarrow> pystr" where
  "uuid_str u =
     (let hex = hex_digits 32 (unat u)
      in take 8 hex @ py ''-'' @ take 4 (drop 8 hex) @ py ''-'' @ take 4 (drop 12 hex)
         @ py ''-'' @ take 4 (drop 16 hex) @ py ''-'' @ drop 20 hex)"

section \<open>Data model\<close>

text \<open>An entry of \<open>message_history\<close>: a dict with the keys role, content, timestamp.\<close>

record message =
  role :: pystr
  content :: pystr
  timestamp :: pystr

text \<open>
  A session dict.  \<open>awaiting_action\<close> holds \<open>None\<close> or a string, as in the source;
  \<open>user_data\<close> is a dict from field name to captured text.
\<close>

record session =
  created_at :: pystr
  message_history :: "message list"
  awaiting_action :: "pystr option"
  user_data :: "pystr \<rightharpoonup> pystr"

type_synonym sessions = "pystr \<rightharpoonup> session"

record ChatRequest =
  message :: pystr
  session_id :: "pystr option"

record ChatResponse =
  response :: pystr
  session_id :: pystr
  confidence :: real
  requires_action :: "pystr option"

text \<open>The fields of \<open>settings\<close> (config.py) that the modelled code reads.\<close>

record settings =
  SMTP_SERVER :: "pystr option"
  SMTP_PORT :: int
  SMTP_USERNAME :: "pystr option"
  SMTP_PASSWORD :: "pystr option"
  RECEIVER_EMAIL :: "pystr option"
  OLLAMA_MODEL :: pystr
  FAISS_DB_PATH :: pystr
  HUGGINGFACE_EMBEDDING_MODEL :: pystr
  LEAD_CAPTURE_PHRASES :: "pystr list"

text \<open>The phrase list that config.py declares.\<close>

definition default_phrases :: "pystr list" where
  "default_phrases =
     [py ''price'', py ''quote'', py ''cost'', py ''contact'', py ''talk to'',
      py ''meeting'', py ''schedule'']"

text \<open>An exception raised by a collaborator, with its text.\<close>

datatype exn = Exception pystr

text \<open>The mail handed to the SMTP server.\<close>

record mail =
  subject :: pystr
  sender :: pystr
  receiver :: pystr
  body :: pystr

text \<open>
  What the surroundings answer during one request: the clock, the random sources, the
  file system, and the outcome of every call into a collaborator (\<open>Some e\<close> or
  \<open>Inl e\<close>: the call raises \<open>e\<close>).
\<close>

record world =
  uuid4 :: "128 word"
  now_created :: pystr
  now_user :: pystr
  now_assistant :: pystr
  unicode_lower :: "pystr \<Rightarrow> pystr"
  embeddings_init :: "pystr \<Rightarrow> exn option"
  path_exists :: "pystr \<Rightarrow> bool"
  faiss_load :: "pystr \<Rightarrow> exn option"
  rag_invoke :: "pystr \<Rightarrow> exn + pystr"
  random_choice :: nat
  smtp_session :: "settings \<Rightarrow> mail \<Rightarrow> exn option"

text \<open>What a request does to the outside, in order.\<close>

datatype event =
    Print pystr
  | Embeddings_init pystr
  | Faiss_load pystr
  | Rag_invoke pystr
  | Send_lead_email "pystr \<rightharpoonup> pystr" "message list"
  | Smtp_session mail

section \<open>lead\_capture.py\<close>

definition truthy :: "pystr option \<Rightarrow> bool" where
  "truthy v = (case v of None \<Rightarrow> False | Some s \<Rightarrow> s \<noteq> [])"

definition dict_get :: "(pystr \<rightharpoonup> pystr) \<Rightarrow> pystr \<Rightarrow> pystr \<Rightarrow> pystr" where
  "dict_get d k dflt = (case d k of None \<Rightarrow> dflt | Some v \<Rightarrow> v)"

definition lead_body :: "(pystr \<rightharpoonup> pystr) \<Rightarrow> pystr \<Rightarrow> pystr \<Rightarrow> pystr" where
  "lead_body lead_data initial_message ts =
     [10] @ py ''    A new lead has been captured from your AI assistant!'' @ [10]
     @ py ''    '' @ [10]
     @ py ''    Name: '' @ dict_get lead_data (py ''name'') (py ''N/A'') @ [10]
     @ py ''    Email: '' @ dict_get lead_data (py ''email'') (py ''N/A'') @ [10]
     @ py ''    '' @ [10]
     @ py ''    ---'' @ [10]
     @ py ''    Lead Details:'' @ [10]
     @ py ''    Initial Intent: '' @ [34] @ initial_message @ [34] @ [10]
     @ py ''    Time of Capture: '' @ ts @ [10]
     @ py ''    ''"

text \<open>The guard \<open>all([SMTP_SERVER, SMTP_USERNAME, SMTP_PASSWORD, RECEIVER_EMAIL])\<close>.\<close>

definition smtp_configured :: "settings \<Rightarrow> bool" where
  "smtp_configured st =
     (truthy (SMTP_SERVER st) \<and> truthy (SMTP_USERNAME st)
      \<and> truthy (SMTP_PASSWORD st) \<and> truthy (RECEIVER_EMAIL st))"

text \<open>
  The mail that \<open>send_lead_email\<close> composes: intent and time of capture are read from the
  first entry of the history, \<open>N/A\<close> when there is none.
\<close>

definition lead_mail :: "settings \<Rightarrow> (pystr \<rightharpoonup> pystr) \<Rightarrow> message list \<Rightarrow> mail" where
  "lead_mail st lead_data history =
     (let sender_email = (case SMTP_USERNAME st of None \<Rightarrow> [] | Some a \<Rightarrow> a);
          receiver_email = (case RECEIVER_EMAIL st of None \<Rightarrow> [] | Some a \<Rightarrow> a);
          initial_message = (case history of [] \<Rightarrow> py ''N/A'' | m # ms \<Rightarrow> content m);
          ts = (case history of [] \<Rightarrow> py ''N/A'' | m # ms \<Rightarrow> timestamp m)
      in \<lparr>subject = py ''New OveloAI Lead Captured'', sender = sender_email,
          receiver = receiver_email, body = lead_body lead_data initial_message ts\<rparr>)"

text \<open>
  \<open>send_lead_email\<close>: the events it causes and how it ends (\<open>Inr ()\<close>: it returns;
  \<open>Inl e\<close>: it raises \<open>e\<close> to its caller).  Without full SMTP settings it prints and
  returns.  The \<open>try\<close> block encloses the whole SMTP session and its handler catches
  every \<open>Exception\<close>.
\<close>

definition send_lead_email ::
  "settings \<Rightarrow> world \<Rightarrow> (pystr \<rightharpoonup> pystr) \<Rightarrow> message list \<Rightarrow> event list \<times> (exn + unit)" where
  "send_lead_email st w lead_data history =
     (if \<not> smtp_configured st
      then ([Print (py ''SMTP credentials are not fully configured. Email will not be sent.'')],
            Inr ())
      else
        (case smtp_session w st (lead_mail st lead_data history) of
           None \<Rightarrow>
             ([Smtp_session (lead_mail st lead_data history),
               Print (py ''Lead email sent successfully!'')], Inr ())
         | Some (Exception e) \<Rightarrow>
             ([Smtp_session (lead_mail st lead_data history),
               Print (py ''Failed to send email: '' @ e)], Inr ())))"

section \<open>ai\_brain.py\<close>

definition kb_missing :: pystr where
  "kb_missing = py ''Error: Knowledge base not found. Please ensure your FAISS vector database has been created.''"

definition greetings :: "pystr list" where
  "greetings = [py ''Hello!'', py ''Hi there!'', py ''Hey!'', py ''Greetings!'']"

text \<open>
  \<open>get_ai_response\<close>.  The embedding model is constructed first; the path of the vector
  store is tested after that; loading the store and running the chain come last.
\<close>

definition get_ai_response ::
  "settings \<Rightarrow> world \<Rightarrow> pystr \<Rightarrow> event list \<times> (exn + pystr \<times> real)" where
  "get_ai_response st w msg =
     (case embeddings_init w (HUGGINGFACE_EMBEDDING_MODEL st) of
        Some e \<Rightarrow> ([Embeddings_init (HUGGINGFACE_EMBEDDING_MODEL st)], Inl e)
      | None \<Rightarrow>
          if \<not> path_exists w (FAISS_DB_PATH st)
          then ([Embeddings_init (HUGGINGFACE_EMBEDDING_MODEL st)], Inr (kb_missing, 0.0))
          else
            (case faiss_load w (FAISS_DB_PATH st) of
               Some e \<Rightarrow>
                 ([Embeddings_init (HUGGINGFACE_EMBEDDING_MODEL st),
                   Faiss_load (FAISS_DB_PATH st)], Inl e)
             | None \<Rightarrow>
                 (case rag_invoke w msg of
                    Inl e \<Rightarrow>
                      ([Embeddings_init (HUGGINGFACE_EMBEDDING_MODEL st),
                        Faiss_load (FAISS_DB_PATH st), Rag_invoke msg], Inl e)
                  | Inr response_text \<Rightarrow>
                      ([Embeddings_init (HUGGINGFACE_EMBEDDING_MODEL st),
                        Faiss_load (FAISS_DB_PATH st), Rag_invoke msg],
                       Inr (greetings ! (random_choice w mod 4) @ py '' '' @ response_text,
                            0.95)))))"

section \<open>main.py\<close>

text \<open>The dict that \<open>get_session\<close> stores for an unseen key.\<close>

definition new_session :: "world \<Rightarrow> session" where
  "new_session w =
     \<lparr>created_at = now_created w, message_history = [], awaiting_action = None,
      user_data = Map.empty\<rparr>"

text \<open>\<open>get_session\<close>: the store afterwards and the session returned.\<close>

definition get_session :: "world \<Rightarrow> sessions \<Rightarrow> pystr \<Rightarrow> sessions \<times> session" where
  "get_session w sessions sid =
     (case sessions sid of
        None \<Rightarrow> (sessions(sid \<mapsto> new_session w), new_session w)
      | Some s \<Rightarrow> (sessions, s))"

definition detect_lead_intent :: "settings \<Rightarrow> world \<Rightarrow> pystr \<Rightarrow> bool" where
  "detect_lead_intent st w msg =
     list_ex (\<lambda>phrase. str_contains phrase (str_lower (unicode_lower w) msg))
       (LEAD_CAPTURE_PHRASES st)"

text \<open>\<open>request_data.session_id or str(uuid.uuid4())\<close>: \<open>None\<close> and the empty string are falsy.\<close>

definition request_session_id :: "world \<Rightarrow> ChatRequest \<Rightarrow> pystr" where
  "request_session_id w request_data =
     (case ChatRequest.session_id request_data of
        None \<Rightarrow> uuid_str (uuid4 w)
      | Some s \<Rightarrow> if s = [] then uuid_str (uuid4 w) else s)"

text \<open>
  The branch chain of \<open>chat_endpoint\<close> (its MAIN LOGIC FLOW), on the session that already
  holds the user's message: the session afterwards, the events, and either the exception
  that leaves the endpoint or \<open>(response_text, confidence, requires_action)\<close>.
\<close>

definition main_logic_flow ::
  "settings \<Rightarrow> world \<Rightarrow> session \<Rightarrow> pystr
     \<Rightarrow> session \<times> event list \<times> (exn + pystr \<times> real \<times> pystr option)" where
  "main_logic_flow st w session msg =
     (if awaiting_action session = Some (py ''get_name'') then
        (session\<lparr>user_data := (user_data session)(py ''name'' \<mapsto> msg),
                 awaiting_action := Some (py ''get_email'')\<rparr>,
         [],
         Inr (py ''Thanks '' @ msg @ py ''! What's your email address?'', 0.9,
              Some (py ''get_email'')))
      else if awaiting_action session = Some (py ''get_email'') then
        (if str_contains (py ''@'') msg \<and> str_contains (py ''.'') msg then
           let session' = session\<lparr>user_data := (user_data session)(py ''email'' \<mapsto> msg),
                                   awaiting_action := None\<rparr>;
               sent = send_lead_email st w (user_data session') (message_history session');
               events = Send_lead_email (user_data session') (message_history session')
                          # fst sent
           in case snd sent of
                Inl e \<Rightarrow> (session', events, Inl e)
              | Inr u \<Rightarrow>
                  (session', events,
                   Inr (py ''Perfect! We'll contact you at '' @ msg @ py '' within 24 hours! ''
                          @ [127881],
                        1.0, None))
         else
           (session\<lparr>awaiting_action := Some (py ''get_email'')\<rparr>,
            [],
            Inr (py ''That doesn't look like a valid email. Can you please try again?'', 0.5,
                 Some (py ''get_email''))))
      else if detect_lead_intent st w msg then
        (session\<lparr>awaiting_action := Some (py ''get_name'')\<rparr>,
         [],
         Inr (py ''Awesome! Let's get you started. What's your name?'', 0.9,
              Some (py ''get_name'')))
      else
        (case get_ai_response st w msg of
           (events, Inl e) \<Rightarrow> (session, events, Inl e)
         | (events, Inr (response_text, conf)) \<Rightarrow>
             (session, events, Inr (response_text, conf, None))))"

text \<open>
  \<open>chat_endpoint\<close>: the store afterwards, the events, and the exception or the response.
  The session dict is changed in place, so what was done before an exception stays done.
\<close>

definition chat_endpoint ::
  "settings \<Rightarrow> world \<Rightarrow> sessions \<Rightarrow> ChatRequest
     \<Rightarrow> sessions \<times> event list \<times> (exn + ChatResponse)" where
  "chat_endpoint st w sessions request_data =
     (let sid = request_session_id w request_data;
          got = get_session w sessions sid;
          session1 = (snd got)\<lparr>message_history := message_history (snd got) @
                       [\<lparr>role = py ''user'', content = message request_data,
                         timestamp = now_user w\<rparr>]\<rparr>;
          flow = main_logic_flow st w session1 (message request_data)
      in case snd (snd flow) of
           Inl e \<Rightarrow> ((fst got)(sid \<mapsto> fst flow), fst (snd flow), Inl e)
         | Inr (response_text, conf, req) \<Rightarrow>
             ((fst got)(sid \<mapsto> (fst flow)\<lparr>message_history := message_history (fst flow) @
                          [\<lparr>role = py ''assistant'', content = response_text,
                            timestamp = now_assistant w\<rparr>]\<rparr>),
              fst (snd flow),
              Inr \<lparr>response = response_text, session_id = sid, confidence = conf,
                   requires_action = req\<rparr>))"

text \<open>
  The process serving requests one after the other on the module-level store: the store
  afterwards and, per request, the session it addressed and how it ended.
\<close>

fun serve ::
  "settings \<Rightarrow> sessions \<Rightarrow> (world \<times> ChatRequest) list
     \<Rightarrow> sessions \<times> (pystr \<times> (exn + ChatResponse)) list" where
  "serve st sessions [] = (sessions, [])"
| "serve st sessions ((w, rq) # calls) =
     (let r = chat_endpoint st w sessions rq;
          rest = serve st (fst r) calls
      in (fst rest, (request_session_id w rq, snd (snd r)) # snd rest))"

section \<open>Vocabulary of the properties\<close>


text \<open>The three values of \<open>awaiting_action\<close>, and a store whose sessions all hold one of them.\<close>

definition valid_action :: "pystr option \<Rightarrow> bool" where
  "valid_action a = (a = None \<or> a = Some (py ''get_name'') \<or> a = Some (py ''get_email''))"

definition store_ok :: "sessions \<Rightarrow> bool" where
  "store_ok sessions = (\<forall>sid s. sessions sid = Some s \<longrightarrow> valid_action (awaiting_action s))"




subsection \<open>Concrete surroundings\<close>

text \<open>config.py with no SMTP variable in the environment, and with all of them.\<close>

definition example_settings :: settings where
  "example_settings =
     \<lparr>SMTP_SERVER = None, SMTP_PORT = 587, SMTP_USERNAME = None, SMTP_PASSWORD = None,
      RECEIVER_EMAIL = None, OLLAMA_MODEL = py ''phi3:mini'', FAISS_DB_PATH = py ''faiss_db'',
      HUGGINGFACE_EMBEDDING_MODEL = py ''sentence-transformers/all-MiniLM-L6-v2'',
      LEAD_CAPTURE_PHRASES = default_phrases\<rparr>"


text \<open>
  A machine on which nothing fails and no vector store has been built; the same machine
  when the embedding model cannot be loaded; and when the SMTP server refuses.
\<close>

definition example_world :: world where
  "example_world =
     \<lparr>uuid4 = 0, now_created = py ''t0'', now_user = py ''t1'', now_assistant = py ''t2'',
      unicode_lower = (\<lambda>s. s), embeddings_init = (\<lambda>m. None), path_exists = (\<lambda>p. False),
      faiss_load = (\<lambda>p. None), rag_invoke = (\<lambda>q. Inr (py ''ok'')), random_choice = 0,
      smtp_session = (\<lambda>st m. None)\<rparr>"




definition example_session :: "pystr option \<Rightarrow> session" where
  "example_session a =
     \<lparr>created_at = py ''t0'', message_history = [], awaiting_action = a,
      user_data = Map.empty\<rparr>"


section \<open>Auxiliary facts\<close>

lemma action_neq: "py ''get_name'' \<noteq> py ''get_email''"
  by (simp add: py_def)

lemma get_session_present:
  "sessions sid = Some s \<Longrightarrow> get_session w sessions sid = (sessions, s)"
  by (simp add: get_session_def)

lemma contains_char: "str_contains [c] s = (c \<in> set s)"
  by (induction s) auto

lemma at_dot: "py ''@'' = [64]" "py ''.'' = [46]"
  by (simp_all add: py_def)




lemma starts_with_prefix: "starts_with p s = prefix p s"
  by (induction p s rule: starts_with.induct) simp_all

lemma str_contains_sublist: "str_contains p s = sublist p s"
  by (induction s) (simp_all add: starts_with_prefix sublist_Cons_right)

lemma detect_lead_intent_iff:
  "detect_lead_intent st w msg =
     (\<exists>phrase \<in> set (LEAD_CAPTURE_PHRASES st). sublist phrase (str_lower (unicode_lower w) msg))"
  by (simp add: detect_lead_intent_def list_ex_iff str_contains_sublist)

lemma pricing_not_detected:
  "detect_lead_intent example_settings w (py ''what is your pricing?'') = False"
  by (simp add: detect_lead_intent_def example_settings_def default_phrases_def
        str_lower_def py_def ascii_lower_def)

lemma get_session_store:
  "(fst (get_session w sessions sid))(sid \<mapsto> x) = sessions(sid \<mapsto> x)"
  by (simp add: get_session_def split: option.splits)

lemma get_session_snd:
  "sessions sid = Some s \<or> sessions sid = None \<and> s = new_session w
     \<Longrightarrow> snd (get_session w sessions sid) = s"
  by (auto simp add: get_session_def)

lemma fallback_flow:
  assumes "awaiting_action s = None" and "\<not> detect_lead_intent st w msg"
  shows "main_logic_flow st w s msg =
     (case get_ai_response st w msg of
           (events, Inl e) \<Rightarrow> (s, events, Inl e)
         | (events, Inr (response_text, conf)) \<Rightarrow> (s, events, Inr (response_text, conf, None)))"
  using assms by (simp add: main_logic_flow_def)

lemma fresh_request:
  "request_session_id w \<lparr>message = m, session_id = None\<rparr> = uuid_str (uuid4 w)"
  by (simp add: request_session_id_def)


lemma flow_valid:
  assumes "valid_action (awaiting_action s)"
  shows "valid_action (awaiting_action (fst (main_logic_flow st w s msg)))"
  using assms
  by (auto simp add: main_logic_flow_def valid_action_def Let_def
        split: sum.splits prod.splits)

lemma flow_history:
  "message_history (fst (main_logic_flow st w s msg)) = message_history s"
  by (auto simp add: main_logic_flow_def Let_def split: sum.splits prod.splits)

lemma get_session_valid:
  assumes "store_ok sessions"
  shows "store_ok (fst (get_session w sessions sid))"
    and "valid_action (awaiting_action (snd (get_session w sessions sid)))"
  using assms
  by (auto simp add: get_session_def store_ok_def valid_action_def new_session_def
        split: option.splits)

lemma chat_store:
  "fst (chat_endpoint st w sessions rq) =
     (fst (get_session w sessions (request_session_id w rq)))
       (request_session_id w rq \<mapsto>
          (case snd (snd (chat_endpoint st w sessions rq)) of
             Inl e \<Rightarrow> fst (main_logic_flow st w
                 ((snd (get_session w sessions (request_session_id w rq)))
                    \<lparr>message_history :=
                       message_history (snd (get_session w sessions (request_session_id w rq))) @
                       [\<lparr>role = py ''user'', content = message rq, timestamp = now_user w\<rparr>]\<rparr>)
                 (message rq))
           | Inr r \<Rightarrow> (fst (main_logic_flow st w
                 ((snd (get_session w sessions (request_session_id w rq)))
                    \<lparr>message_history :=
                       message_history (snd (get_session w sessions (request_session_id w rq))) @
                       [\<lparr>role = py ''user'', content = message rq, timestamp = now_user w\<rparr>]\<rparr>)
                 (message rq)))
               \<lparr>message_history :=
                  message_history (snd (get_session w sessions (request_session_id w rq))) @
                  [\<lparr>role = py ''user'', content = message rq, timestamp = now_user w\<rparr>,
                   \<lparr>role = py ''assistant'', content = response r,
                    timestamp = now_assistant w\<rparr>]\<rparr>))"
  by (simp add: chat_endpoint_def Let_def flow_history split: sum.splits prod.splits)

lemma chat_preserves:
  assumes "store_ok sessions"
  shows "store_ok (fst (chat_endpoint st w sessions rq))"
proof -
  let ?sid = "request_session_id w rq"
  let ?g = "get_session w sessions ?sid"
  let ?s1 = "(snd ?g)\<lparr>message_history := message_history (snd ?g) @
                [\<lparr>role = py ''user'', content = message rq, timestamp = now_user w\<rparr>]\<rparr>"
  have v: "valid_action (awaiting_action (fst (main_logic_flow st w ?s1 (message rq))))"
    using get_session_valid(2) [OF assms] by (intro flow_valid) simp
  have g: "store_ok (fst ?g)" by (rule get_session_valid(1) [OF assms])
  show ?thesis
    unfolding chat_store using v g
    by (auto simp add: store_ok_def split: sum.splits)
qed

lemma serve_preserves:
  "store_ok sessions \<Longrightarrow> store_ok (fst (serve st sessions calls))"
proof (induction calls arbitrary: sessions)
  case Nil
  then show ?case by simp
next
  case (Cons c calls)
  then show ?case by (cases c) (simp add: Let_def chat_preserves)
qed




















section \<open>The lead-capture dialogue\<close>



text \<open>
  C2.  A session is waiting for the email address and the message lacks the character
  \<open>@\<close> or lacks the character \<open>.\<close>.  Then the call leaves \<open>awaiting_action\<close> at
  \<open>get_email\<close> and \<open>user_data\<close> as it was, answers with the retry prompt, confidence
  0.5 and required action \<open>get_email\<close>; nothing else in the store changes but the two
  history entries, and nothing is done to the outside.
\<close>

theorem email_step_invalid:
  assumes "sessions (request_session_id w rq) = Some s"
      and "awaiting_action s = Some (py ''get_email'')"
      and "64 \<notin> set (message rq) \<or> 46 \<notin> set (message rq)"
  shows "chat_endpoint st w sessions rq =
     (sessions(request_session_id w rq \<mapsto>
        \<lparr>created_at = created_at s,
         message_history = message_history s @
           [\<lparr>role = py ''user'', content = message rq, timestamp = now_user w\<rparr>,
            \<lparr>role = py ''assistant'',
             content = py ''That doesn't look like a valid email. Can you please try again?'',
             timestamp = now_assistant w\<rparr>],
         awaiting_action = Some (py ''get_email''),
         user_data = user_data s\<rparr>),
      [],
      Inr \<lparr>response = py ''That doesn't look like a valid email. Can you please try again?'',
           session_id = request_session_id w rq, confidence = 0.5,
           requires_action = Some (py ''get_email'')\<rparr>)"
  using assms action_neq
  by (cases s)
     (auto simp add: chat_endpoint_def get_session_present main_logic_flow_def Let_def
        at_dot contains_char)

theorem email_step_invalid_witness:
  "[py ''s1'' \<mapsto> example_session (Some (py ''get_email''))]
       (request_session_id example_world
          \<lparr>message = py ''ada at example.org'', session_id = Some (py ''s1'')\<rparr>)
     = Some (example_session (Some (py ''get_email'')))
   \<and> 64 \<notin> set (py ''ada at example.org'')
   \<and> chat_endpoint example_settings example_world
          [py ''s1'' \<mapsto> example_session (Some (py ''get_email''))]
          \<lparr>message = py ''ada at example.org'', session_id = Some (py ''s1'')\<rparr> =
       ([py ''s1'' \<mapsto>
           \<lparr>created_at = py ''t0'',
            message_history =
              [\<lparr>role = py ''user'', content = py ''ada at example.org'', timestamp = py ''t1''\<rparr>,
               \<lparr>role = py ''assistant'',
                content = py ''That doesn't look like a valid email. Can you please try again?'',
                timestamp = py ''t2''\<rparr>],
            awaiting_action = Some (py ''get_email''), user_data = Map.empty\<rparr>],
        [],
        Inr \<lparr>response = py ''That doesn't look like a valid email. Can you please try again?'',
             session_id = py ''s1'', confidence = 0.5,
             requires_action = Some (py ''get_email'')\<rparr>)"
proof -
  let ?rq = "\<lparr>message = py ''ada at example.org'', session_id = Some (py ''s1'')\<rparr>"
  let ?ss = "[py ''s1'' \<mapsto> example_session (Some (py ''get_email''))]"
  have sid: "request_session_id example_world ?rq = py ''s1''"
    by (simp add: request_session_id_def py_def)
  have h1: "?ss (request_session_id example_world ?rq)
              = Some (example_session (Some (py ''get_email'')))"
    by (simp add: sid)
  have h2: "awaiting_action (example_session (Some (py ''get_email''))) = Some (py ''get_email'')"
    by (simp add: example_session_def)
  have h3: "64 \<notin> set (message ?rq) \<or> 46 \<notin> set (message ?rq)"
    by (simp add: py_def)
  from email_step_invalid [where sessions = "?ss" and w = example_world and rq = "?rq"
         and s = "example_session (Some (py ''get_email''))" and st = example_settings,
         OF h1 h2 h3] h1
  show ?thesis
    unfolding sid by (simp add: example_session_def example_world_def py_def)
qed

text \<open>
  C3.  A session is waiting for the name.  Then, whatever the message is, the call stores
  it as \<open>user_data["name"]\<close>, moves \<open>awaiting_action\<close> to \<open>get_email\<close>, answers
  with the acknowledgment built around the very text of the message, confidence 0.9 and
  required action \<open>get_email\<close>.
\<close>

theorem name_step:
  assumes "sessions (request_session_id w rq) = Some s"
      and "awaiting_action s = Some (py ''get_name'')"
  shows "chat_endpoint st w sessions rq =
     (sessions(request_session_id w rq \<mapsto>
        \<lparr>created_at = created_at s,
         message_history = message_history s @
             [\<lparr>role = py ''user'', content = message rq, timestamp = now_user w\<rparr>,
              \<lparr>role = py ''assistant'',
               content = py ''Thanks '' @ message rq @ py ''! What's your email address?'',
               timestamp = now_assistant w\<rparr>],
         awaiting_action = Some (py ''get_email''),
         user_data = (user_data s)(py ''name'' \<mapsto> message rq)\<rparr>),
      [],
      Inr \<lparr>response = py ''Thanks '' @ message rq @ py ''! What's your email address?'',
           session_id = request_session_id w rq, confidence = 0.9,
           requires_action = Some (py ''get_email'')\<rparr>)"
  using assms
  by (cases s) (simp add: chat_endpoint_def get_session_present main_logic_flow_def Let_def)

theorem name_step_witness:
  "[py ''s1'' \<mapsto> example_session (Some (py ''get_name''))]
       (request_session_id example_world \<lparr>message = py ''Ada'', session_id = Some (py ''s1'')\<rparr>)
     = Some (example_session (Some (py ''get_name'')))
   \<and> chat_endpoint example_settings example_world
          [py ''s1'' \<mapsto> example_session (Some (py ''get_name''))]
          \<lparr>message = py ''Ada'', session_id = Some (py ''s1'')\<rparr> =
       ([py ''s1'' \<mapsto>
           \<lparr>created_at = py ''t0'',
            message_history =
              [\<lparr>role = py ''user'', content = py ''Ada'', timestamp = py ''t1''\<rparr>,
               \<lparr>role = py ''assistant'',
                content = py ''Thanks Ada! What's your email address?'',
                timestamp = py ''t2''\<rparr>],
            awaiting_action = Some (py ''get_email''),
            user_data = [py ''name'' \<mapsto> py ''Ada'']\<rparr>],
        [],
        Inr \<lparr>response = py ''Thanks Ada! What's your email address?'',
             session_id = py ''s1'', confidence = 0.9,
             requires_action = Some (py ''get_email'')\<rparr>)"
proof -
  let ?rq = "\<lparr>message = py ''Ada'', session_id = Some (py ''s1'')\<rparr>"
  let ?ss = "[py ''s1'' \<mapsto> example_session (Some (py ''get_name''))]"
  have sid: "request_session_id example_world ?rq = py ''s1''"
    by (simp add: request_session_id_def py_def)
  have h1: "?ss (request_session_id example_world ?rq)
              = Some (example_session (Some (py ''get_name'')))"
    by (simp add: sid)
  have h2: "awaiting_action (example_session (Some (py ''get_name''))) = Some (py ''get_name'')"
    by (simp add: example_session_def)
  from name_step [where sessions = "?ss" and w = example_world and rq = "?rq"
         and s = "example_session (Some (py ''get_name''))" and st = example_settings,
         OF h1 h2] h1
  show ?thesis
    unfolding sid by (simp add: example_session_def example_world_def py_def)
qed

text \<open>
  C4 (as amended).  The session addressed by the request, found in the store or created
  by this call, has \<open>awaiting_action = None\<close>, and some configured phrase occurs in the
  lower-cased message as a contiguous run.  Then the call sets \<open>awaiting_action\<close> to
  \<open>get_name\<close>, answers with the name prompt, confidence 0.9 and required action
  \<open>get_name\<close>.  The message \<open>what is your pricing?\<close> is not such a message under the
  phrase list of config.py: \<open>price\<close> does not occur in \<open>pricing\<close>, and no other
  phrase occurs either.
\<close>

theorem start_capture:
  assumes "sessions (request_session_id w rq) = Some s
           \<or> sessions (request_session_id w rq) = None \<and> s = new_session w"
      and "awaiting_action s = None"
      and "phrase \<in> set (LEAD_CAPTURE_PHRASES st)"
      and "sublist phrase (str_lower (unicode_lower w) (message rq))"
  shows "chat_endpoint st w sessions rq =
     (sessions(request_session_id w rq \<mapsto>
        \<lparr>created_at = created_at s,
         message_history = message_history s @
           [\<lparr>role = py ''user'', content = message rq, timestamp = now_user w\<rparr>,
            \<lparr>role = py ''assistant'',
             content = py ''Awesome! Let's get you started. What's your name?'',
             timestamp = now_assistant w\<rparr>],
         awaiting_action = Some (py ''get_name''),
         user_data = user_data s\<rparr>),
      [],
      Inr \<lparr>response = py ''Awesome! Let's get you started. What's your name?'',
           session_id = request_session_id w rq, confidence = 0.9,
           requires_action = Some (py ''get_name'')\<rparr>)
   \<and> detect_lead_intent example_settings w (py ''what is your pricing?'') = False"
proof -
  have d: "detect_lead_intent st w (message rq)"
    using assms(3,4) by (auto simp add: detect_lead_intent_iff)
  show ?thesis
    using assms(2) d
      get_session_snd [where sessions = sessions and sid = "request_session_id w rq"
        and s = s and w = w, OF assms(1)]
    by (cases s)
       (simp add: chat_endpoint_def main_logic_flow_def Let_def get_session_store
          pricing_not_detected)
qed

theorem start_capture_witness:
  "Map.empty (request_session_id example_world
       \<lparr>message = py ''What is your PRICE?'', session_id = None\<rparr>) = None
   \<and> awaiting_action (new_session example_world) = None
   \<and> py ''price'' \<in> set (LEAD_CAPTURE_PHRASES example_settings)
   \<and> sublist (py ''price'')
        (str_lower (unicode_lower example_world) (py ''What is your PRICE?''))
   \<and> chat_endpoint example_settings example_world Map.empty
        \<lparr>message = py ''What is your PRICE?'', session_id = None\<rparr> =
       ([uuid_str 0 \<mapsto>
           \<lparr>created_at = py ''t0'',
            message_history =
              [\<lparr>role = py ''user'', content = py ''What is your PRICE?'', timestamp = py ''t1''\<rparr>,
               \<lparr>role = py ''assistant'',
                content = py ''Awesome! Let's get you started. What's your name?'',
                timestamp = py ''t2''\<rparr>],
            awaiting_action = Some (py ''get_name''), user_data = Map.empty\<rparr>],
        [],
        Inr \<lparr>response = py ''Awesome! Let's get you started. What's your name?'',
             session_id = uuid_str 0, confidence = 0.9,
             requires_action = Some (py ''get_name'')\<rparr>)"
proof -
  let ?rq = "\<lparr>message = py ''What is your PRICE?'', session_id = None\<rparr>"
  have sid: "request_session_id example_world ?rq = uuid_str 0"
    by (simp add: fresh_request example_world_def)
  have h1: "Map.empty (request_session_id example_world ?rq) = Some (new_session example_world)
            \<or> Map.empty (request_session_id example_world ?rq) = None
              \<and> new_session example_world = new_session example_world"
    by simp
  have h2: "awaiting_action (new_session example_world) = None"
    by (simp add: new_session_def)
  have h3: "py ''price'' \<in> set (LEAD_CAPTURE_PHRASES example_settings)"
    by (simp add: example_settings_def default_phrases_def)
  have h4: "sublist (py ''price'') (str_lower (unicode_lower example_world) (message ?rq))"
    by (simp add: str_contains_sublist [symmetric] str_lower_def py_def ascii_lower_def)
  from start_capture [where sessions = Map.empty and w = example_world and rq = "?rq"
         and s = "new_session example_world" and st = example_settings
         and phrase = "py ''price''", OF h1 h2 h3 h4] h2 h3 h4
  show ?thesis
    unfolding sid by (simp add: new_session_def example_world_def)
qed

theorem pricing_counterexample:
  "detect_lead_intent example_settings example_world (py ''what is your pricing?'') = False
   \<and> snd (snd (chat_endpoint example_settings example_world Map.empty
          \<lparr>message = py ''what is your pricing?'', session_id = None\<rparr>)) =
       Inr \<lparr>response = kb_missing, session_id = uuid_str 0, confidence = 0,
            requires_action = None\<rparr>
   \<and> awaiting_action (the (fst (chat_endpoint example_settings example_world Map.empty
          \<lparr>message = py ''what is your pricing?'', session_id = None\<rparr>) (uuid_str 0))) = None"
proof -
  have sid: "request_session_id example_world
       \<lparr>message = py ''what is your pricing?'', session_id = None\<rparr> = uuid_str 0"
    by (simp add: request_session_id_def example_world_def)
  have ai: "get_ai_response example_settings example_world (py ''what is your pricing?'') =
     ([Embeddings_init (HUGGINGFACE_EMBEDDING_MODEL example_settings)], Inr (kb_missing, 0))"
    by (simp add: get_ai_response_def example_world_def)
  show ?thesis
    by (simp add: pricing_not_detected chat_endpoint_def sid get_session_def new_session_def
      fallback_flow ai Let_def)
qed

section \<open>The session store\<close>

text \<open>
  C9.  \<open>get_session\<close> on a key that the store lacks adds and returns a session with
  \<open>awaiting_action = None\<close>, no history and no user data; on a key that the store has it
  returns the session found there and leaves the store as it is.
\<close>

theorem get_session_contract:
  "(sessions sid = None \<longrightarrow>
      get_session w sessions sid =
        (sessions(sid \<mapsto> \<lparr>created_at = now_created w, message_history = [],
                            awaiting_action = None, user_data = Map.empty\<rparr>),
         \<lparr>created_at = now_created w, message_history = [], awaiting_action = None,
          user_data = Map.empty\<rparr>))
   \<and> (sessions sid = Some s \<longrightarrow> get_session w sessions sid = (sessions, s))"
  by (simp add: get_session_def new_session_def)

theorem get_session_contract_witness:
  "Map.empty (py ''s1'') = None
   \<and> get_session example_world Map.empty (py ''s1'') =
       ([py ''s1'' \<mapsto> \<lparr>created_at = py ''t0'', message_history = [],
                            awaiting_action = None, user_data = Map.empty\<rparr>],
        \<lparr>created_at = py ''t0'', message_history = [], awaiting_action = None,
         user_data = Map.empty\<rparr>)
   \<and> [py ''s1'' \<mapsto> example_session (Some (py ''get_name''))] (py ''s1'')
       = Some (example_session (Some (py ''get_name'')))
   \<and> get_session example_world [py ''s1'' \<mapsto> example_session (Some (py ''get_name''))]
         (py ''s1'') =
       ([py ''s1'' \<mapsto> example_session (Some (py ''get_name''))],
        example_session (Some (py ''get_name'')))"
  using get_session_contract [of Map.empty "py ''s1''" example_world]
        get_session_contract [of "[py ''s1'' \<mapsto> example_session (Some (py ''get_name''))]"
          "py ''s1''" example_world "example_session (Some (py ''get_name''))"]
  by (simp add: example_world_def)

section \<open>The retrieval fallback\<close>




section \<open>Invariants of the store\<close>

text \<open>
  C6.  \<open>awaiting_action\<close> is always one of \<open>None\<close>, \<open>get_name\<close>, \<open>get_email\<close>: a newly
  created session has it so, every call of \<open>chat_endpoint\<close> (whichever branch it takes,
  and also when it raises) keeps it so for every session of the store, and therefore it
  holds of every session after any sequence of requests served from the empty store.
\<close>

theorem awaiting_action_invariant:
  "valid_action (awaiting_action (new_session w))
   \<and> (store_ok sessions \<longrightarrow> store_ok (fst (chat_endpoint st w sessions rq)))
   \<and> store_ok (fst (serve st Map.empty calls))"
  using chat_preserves serve_preserves [of Map.empty]
  by (simp add: valid_action_def new_session_def store_ok_def)

theorem awaiting_action_invariant_witness:
  "store_ok Map.empty
   \<and> store_ok (fst (chat_endpoint example_settings example_world Map.empty
         \<lparr>message = py ''what is your price?'', session_id = None\<rparr>))
   \<and> store_ok (fst (serve example_settings Map.empty
         [(example_world, \<lparr>message = py ''what is your price?'', session_id = None\<rparr>),
          (example_world, \<lparr>message = py ''Ada'', session_id = Some (uuid_str 0)\<rparr>)]))"
  using awaiting_action_invariant [of example_world Map.empty example_settings
          "\<lparr>message = py ''what is your price?'', session_id = None\<rparr>"
          "[(example_world, \<lparr>message = py ''what is your price?'', session_id = None\<rparr>),
            (example_world, \<lparr>message = py ''Ada'', session_id = Some (uuid_str 0)\<rparr>)]"]
  by (simp add: store_ok_def)




section \<open>The notification sender\<close>



section \<open>The session identifier of a request\<close>



end
